theory Spec2Isabelle
  imports Main
begin

section \<open>Query helpers of faraday/server/utils/database.py\<close>

text \<open>
  The helpers compose clauses of an ORM query. The ORM is an external collaborator; what
  the helpers hand to it is kept as data: a column with its type, a predicate tree built
  from the column operators the source calls (\<open>like\<close>, \<open>op('=')\<close>, \<open>is_\<close>, \<open>&\<close>, \<open>|\<close>),
  and a query as the record of the clauses it has received. Python's \<open>None\<close> is
  \<open>None\<close> of an option type, a raised exception is \<open>Inl\<close> of a sum type.
\<close>

subsection \<open>Data\<close>

datatype error =
    ValueError | RuntimeError | KeyError | AttributeError | AssertionError
  | ProgrammingError | IntegrityError

text \<open>The only fact the source reads of a column's type is \<open>isinstance(column.type, Boolean)\<close>.\<close>

datatype sqltype = Boolean | OtherType

record column =
  col_name :: string
  col_type :: sqltype

text \<open>
  An entry of a column list of \<open>field_to_col_map\<close>: a label, expressed as a string
  (\<open>isinstance(column, str)\<close>), or a column.
\<close>

datatype col_entry = Label string | Col column

text \<open>
  Predicate trees. \<open>Is c (Some True)\<close> is \<open>c.is_(True)\<close>, \<open>Is c (Some False)\<close> is
  \<open>c.is_(False)\<close> and \<open>Is c None\<close> is \<open>c.is_(None)\<close>.
\<close>

datatype sqlexpr =
    Like column string
  | OpEq column string
  | Is column "bool option"
  | And sqlexpr sqlexpr
  | Or sqlexpr sqlexpr

text \<open>An ordering clause: \<open>asc(c)\<close>, \<open>desc(c)\<close>, or an entry passed as it is.\<close>

datatype order_clause = Asc col_entry | Desc col_entry | Bare col_entry

record query =
  criteria :: "sqlexpr list"
  ordering :: "order_clause list"
  limit_rows :: "int option"
  offset_rows :: "int option"

text \<open>
  The generative methods of the ORM's query the helpers call: each returns a new query,
  the receiver is never mutated. \<open>filter\<close> and \<open>order_by\<close> add to the clauses already
  there, \<open>limit\<close> and \<open>offset\<close> set theirs.
\<close>

definition query_filter :: "query \<Rightarrow> sqlexpr \<Rightarrow> query" where
  "query_filter q e = q\<lparr>criteria := criteria q @ [e]\<rparr>"

definition query_order_by :: "query \<Rightarrow> order_clause list \<Rightarrow> query" where
  "query_order_by q cs = q\<lparr>ordering := ordering q @ cs\<rparr>"

definition query_limit :: "query \<Rightarrow> int \<Rightarrow> query" where
  "query_limit q n = q\<lparr>limit_rows := Some n\<rparr>"

definition query_offset :: "query \<Rightarrow> int \<Rightarrow> query" where
  "query_offset q n = q\<lparr>offset_rows := Some n\<rparr>"

text \<open>
  A dict is an association list in insertion order (its keys are distinct); \<open>d.get(k)\<close>
  is \<open>map_of d k\<close>, \<open>k in d\<close> is membership in \<open>map fst d\<close>.
\<close>

type_synonym field_to_col_map = "(string \<times> col_entry list) list"

subsection \<open>paginate\<close>

definition paginate :: "query \<Rightarrow> int \<Rightarrow> int \<Rightarrow> error + query" where
  "paginate query page page_size =
     (if \<not> (page \<ge> 0 \<and> page_size \<ge> 0) then Inl ValueError
      else Inr (query_offset (query_limit query page_size) (page * page_size)))"

subsection \<open>sort_results\<close>

definition ASCENDING :: string where
  "ASCENDING = ''asc''"

definition DESCENDING :: string where
  "DESCENDING = ''desc''"

text \<open>
  \<open>order_cols\<close> of the source is \<open>None\<close> or a list, and is tested for truth twice: a
  list is true when it is not empty.
\<close>

definition sort_results ::
  "query \<Rightarrow> field_to_col_map \<Rightarrow> string \<Rightarrow> string \<Rightarrow> order_clause option \<Rightarrow> query" where
  "sort_results query field_to_col_map order_field order_dir default_clause =
     (let order_cols = map_of field_to_col_map order_field;
          order_cols' =
            (if (case order_cols of None \<Rightarrow> False | Some cs \<Rightarrow> cs \<noteq> [])
                \<and> order_dir \<in> {ASCENDING, DESCENDING}
             then (let dir_func = (if order_dir = ASCENDING then Asc else Desc)
                   in map_option (map dir_func) order_cols)
             else (case default_clause of Some d \<Rightarrow> Some [d] | None \<Rightarrow> None))
      in (case order_cols' of
            None \<Rightarrow> query
          | Some cs \<Rightarrow> if cs \<noteq> [] then query_order_by query cs else query))"

subsection \<open>Combining search terms\<close>

definition concat_search_terms ::
  "sqlexpr option \<Rightarrow> sqlexpr option \<Rightarrow> string \<Rightarrow> sqlexpr option" where
  "concat_search_terms sql_filter_left sql_filter_right operator =
     (case (sql_filter_left, sql_filter_right) of
        (None, None) \<Rightarrow> None
      | (None, Some r) \<Rightarrow> Some r
      | (Some l, None) \<Rightarrow> Some l
      | (Some l, Some r) \<Rightarrow>
          if operator = ''and'' then Some (And l r)
          else if operator = ''or'' then Some (Or l r)
          else None)"

definition concat_and_search_term :: "sqlexpr option \<Rightarrow> sqlexpr option \<Rightarrow> sqlexpr option" where
  "concat_and_search_term left right = concat_search_terms left right ''and''"

definition concat_or_search_term :: "sqlexpr option \<Rightarrow> sqlexpr option \<Rightarrow> sqlexpr option" where
  "concat_or_search_term left right = concat_search_terms left right ''or''"

subsection \<open>apply_search_filter\<close>

text \<open>
  \<open>str.lower()\<close>. Strings are byte strings here, and only the letters \<open>A\<close> to \<open>Z\<close> are
  mapped: the result is only ever compared with \<open>'true'\<close>, \<open>'1'\<close>, \<open>'false'\<close> and \<open>'0'\<close>,
  and no character outside ASCII lowers to a letter of these words.
\<close>

definition lower_char :: "char \<Rightarrow> char" where
  "lower_char c =
     (let n = (of_char c :: nat) in if 65 \<le> n \<and> n \<le> 90 then char_of (n + 32) else c)"

definition lower :: "string \<Rightarrow> string" where
  "lower s = map lower_char s"

definition prepare_boolean_filter :: "column \<Rightarrow> string \<Rightarrow> sqlexpr option" where
  "prepare_boolean_filter column search_term =
     (if search_term \<in> set [''true'', ''1''] then Some (Is column (Some True))
      else if search_term \<in> set [''false'', ''0'']
           then Some (Or (Is column (Some False)) (Is column None))
      else None)"

text \<open>
  The inner loop of \<open>apply_search_filter\<close> (\<open>for column in field_to_col_map.get(attribute)\<close>),
  with \<open>search_term_sql_filter\<close> as its accumulator. The first argument carries
  \<open>is_direct_filter_search\<close> together with \<open>field_filter.get(attribute)\<close>, which the source
  reads only where the flag is set: \<open>Some v\<close> when the attribute is a key of \<open>field_filter\<close>
  with value \<open>v\<close>, \<open>None\<close> when it is not.
\<close>

fun search_columns ::
  "string option \<Rightarrow> string list \<Rightarrow> string \<Rightarrow> string \<Rightarrow> col_entry list
     \<Rightarrow> sqlexpr option \<Rightarrow> sqlexpr option" where
  "search_columns direct strict_filter attribute like_str [] search_term_sql_filter =
     search_term_sql_filter"
| "search_columns direct strict_filter attribute like_str (Label s # columns)
     search_term_sql_filter =
     search_columns direct strict_filter attribute like_str columns search_term_sql_filter"
| "search_columns direct strict_filter attribute like_str (Col column # columns)
     search_term_sql_filter =
     (case direct of
        Some v \<Rightarrow>
          if col_type column = Boolean then
            (case prepare_boolean_filter column (lower v) of
               None \<Rightarrow>
                 search_columns direct strict_filter attribute like_str columns
                   search_term_sql_filter
             | Some search_term \<Rightarrow>
                 search_columns direct strict_filter attribute like_str columns
                   (concat_or_search_term search_term_sql_filter (Some search_term)))
          else if attribute \<in> set strict_filter then
            search_columns direct strict_filter attribute like_str columns
              (concat_or_search_term search_term_sql_filter (Some (OpEq column v)))
          else
            search_columns direct strict_filter attribute like_str columns
              (concat_or_search_term search_term_sql_filter (Some (Like column like_str)))
      | None \<Rightarrow>
          search_columns direct strict_filter attribute like_str columns
            (concat_or_search_term search_term_sql_filter (Some (Like column like_str))))"

text \<open>
  The outer loop (\<open>for attribute in field_to_col_map\<close>) over the items of the mapping: a
  dict yields its keys in insertion order and \<open>field_to_col_map.get(attribute)\<close> of a key
  it yields is that key's value. The accumulator is the pair
  \<open>(fts_sql_filter, dfs_sql_filter)\<close>. \<open>free_text_search\<close> is \<open>None\<close> or a string, true when
  it is a string that is not empty.
\<close>

fun search_attributes ::
  "string option \<Rightarrow> (string \<times> string) list \<Rightarrow> string list \<Rightarrow> field_to_col_map
     \<Rightarrow> sqlexpr option \<times> sqlexpr option \<Rightarrow> sqlexpr option \<times> sqlexpr option" where
  "search_attributes free_text_search field_filter strict_filter []
     (fts_sql_filter, dfs_sql_filter) = (fts_sql_filter, dfs_sql_filter)"
| "search_attributes free_text_search field_filter strict_filter ((attribute, columns) # rest)
     (fts_sql_filter, dfs_sql_filter) =
     (case map_of field_filter attribute of
        Some v \<Rightarrow>
          search_attributes free_text_search field_filter strict_filter rest
            (fts_sql_filter,
             concat_and_search_term dfs_sql_filter
               (search_columns (Some v) strict_filter attribute (''%'' @ v @ ''%'') columns None))
      | None \<Rightarrow>
          (case free_text_search of
             None \<Rightarrow>
               search_attributes free_text_search field_filter strict_filter rest
                 (fts_sql_filter, dfs_sql_filter)
           | Some term \<Rightarrow>
               if term = [] then
                 search_attributes free_text_search field_filter strict_filter rest
                   (fts_sql_filter, dfs_sql_filter)
               else
                 search_attributes free_text_search field_filter strict_filter rest
                   (concat_or_search_term fts_sql_filter
                      (search_columns None strict_filter attribute (''%'' @ term @ ''%'')
                         columns None),
                    dfs_sql_filter)))"

definition apply_search_filter ::
  "query \<Rightarrow> field_to_col_map \<Rightarrow> string option \<Rightarrow> (string \<times> string) list \<Rightarrow> string list
     \<Rightarrow> error + query" where
  "apply_search_filter query field_to_col_map free_text_search field_filter strict_filter =
     (if list_ex (\<lambda>attr. attr \<notin> set (map fst field_to_col_map)) (map fst field_filter)
      then Inl ValueError
      else
        (case search_attributes free_text_search field_filter strict_filter field_to_col_map
                (None, None) of
           (fts_sql_filter, dfs_sql_filter) \<Rightarrow>
             (case concat_and_search_term fts_sql_filter dfs_sql_filter of
                Some sql_filter \<Rightarrow> Inr (query_filter query sql_filter)
              | None \<Rightarrow> Inr query)))"

subsection \<open>Reading a filter\<close>

text \<open>The conditions a predicate tree joins with \<open>|\<close>, left to right.\<close>

fun disjuncts :: "sqlexpr \<Rightarrow> sqlexpr list" where
  "disjuncts (Or l r) = disjuncts l @ disjuncts r"
| "disjuncts e = [e]"

text \<open>The columns of a column list: its entries that are not labels.\<close>

fun columns_of :: "col_entry list \<Rightarrow> column list" where
  "columns_of [] = []"
| "columns_of (Label s # es) = columns_of es"
| "columns_of (Col c # es) = c # columns_of es"

text \<open>The conditions of an optional filter: none when there is no filter.\<close>

fun opt_disjuncts :: "sqlexpr option \<Rightarrow> sqlexpr list" where
  "opt_disjuncts None = []"
| "opt_disjuncts (Some e) = disjuncts e"

text \<open>
  The columns the free-text term is matched against: those of the attributes of the
  mapping that are not keys of \<open>field_filter\<close>, in the mapping's order.
\<close>

fun free_text_columns :: "(string \<times> string) list \<Rightarrow> field_to_col_map \<Rightarrow> column list" where
  "free_text_columns field_filter [] = []"
| "free_text_columns field_filter ((attribute, columns) # rest) =
     (case map_of field_filter attribute of
        Some v \<Rightarrow> free_text_columns field_filter rest
      | None \<Rightarrow> columns_of columns @ free_text_columns field_filter rest)"

text \<open>
  The field filter stated on its own, after the specification's words. The condition one column
  gets from the value \<open>v\<close> of its attribute in \<open>field_filter\<close>: a Boolean column the
  normalised truth value, any other column equality with \<open>v\<close> under strict filtering and
  the pattern \<open>%v%\<close> otherwise.
\<close>

definition field_filter_term :: "bool \<Rightarrow> string \<Rightarrow> column \<Rightarrow> sqlexpr option" where
  "field_filter_term strict v c =
     (if col_type c = Boolean then prepare_boolean_filter c (lower v)
      else if strict then Some (OpEq c v)
      else Some (Like c (''%'' @ v @ ''%'')))"

text \<open>The filter of one attribute: the conditions of its columns joined with \<open>|\<close>.\<close>

definition attribute_field_filter :: "bool \<Rightarrow> string \<Rightarrow> col_entry list \<Rightarrow> sqlexpr option" where
  "attribute_field_filter strict v columns =
     foldl concat_or_search_term None (map (field_filter_term strict v) (columns_of columns))"

text \<open>The filters of the attributes that are keys of \<open>field_filter\<close>, in the mapping's order.\<close>

fun field_filter_terms ::
  "(string \<times> string) list \<Rightarrow> string list \<Rightarrow> field_to_col_map \<Rightarrow> sqlexpr option list" where
  "field_filter_terms field_filter strict_filter [] = []"
| "field_filter_terms field_filter strict_filter ((attribute, columns) # rest) =
     (case map_of field_filter attribute of
        Some v \<Rightarrow>
          attribute_field_filter (attribute \<in> set strict_filter) v columns
            # field_filter_terms field_filter strict_filter rest
      | None \<Rightarrow> field_filter_terms field_filter strict_filter rest)"


section \<open>Records of the database\<close>

text \<open>
  A value of a column or of an attribute: \<open>None\<close> (SQL \<open>NULL\<close>), a truth value, an integer,
  a string, or a model object, of which only its \<open>id\<close> is read (\<open>None\<close> until it is stored).
\<close>

datatype val = VNone | VBool bool | VInt int | VStr string | VObj "int option"


text \<open>A record of a table: its columns' values. A column it does not set is \<open>NULL\<close>.\<close>

type_synonym row = "string \<rightharpoonup> val"

definition attr :: "row \<Rightarrow> string \<Rightarrow> val" where
  "attr r c = (case r c of None \<Rightarrow> VNone | Some v \<Rightarrow> v)"

section \<open>The migration 384784872dc1: a weight column for the roles\<close>

text \<open>
  The migration calls the operations of the migration runner on the database, which are
  external: a table is kept as its column declarations and its rows, and each operation
  is the change the database makes, or the error it answers with. A declaration holds
  what \<open>sa.Column\<close> is given: the name, the type and \<open>nullable\<close>.
\<close>

datatype sa_type = Integer | String

record sa_column =
  sa_name :: string
  sa_type :: sa_type
  nullable :: bool

record table =
  tcolumns :: "sa_column list"
  trows :: "row list"

type_synonym database = "string \<rightharpoonup> table"

text \<open>
  \<open>op.add_column(table_name, column)\<close>: the table must exist and must not have a column
  of that name; every row gets \<open>NULL\<close> in the new column, which a column that is not
  nullable refuses when there are rows.
\<close>

definition add_column :: "string \<Rightarrow> sa_column \<Rightarrow> database \<Rightarrow> error + database" where
  "add_column table_name column db =
     (case db table_name of
        None \<Rightarrow> Inl ProgrammingError
      | Some t \<Rightarrow>
          if sa_name column \<in> set (map sa_name (tcolumns t)) then Inl ProgrammingError
          else if \<not> nullable column \<and> trows t \<noteq> [] then Inl IntegrityError
          else Inr (db(table_name \<mapsto>
                 t\<lparr>tcolumns := tcolumns t @ [column],
                   trows := map (\<lambda>r. r(sa_name column \<mapsto> VNone)) (trows t)\<rparr>)))"

text \<open>
  \<open>op.execute("UPDATE table_name set set_col=set_val WHERE where_col='where_val'")\<close>: both
  columns must exist; the rows whose \<open>where_col\<close> equals the value get \<open>set_val\<close>.
\<close>

definition execute_update ::
  "string \<Rightarrow> string \<Rightarrow> val \<Rightarrow> string \<Rightarrow> val \<Rightarrow> database \<Rightarrow> error + database" where
  "execute_update table_name set_col set_val where_col where_val db =
     (case db table_name of
        None \<Rightarrow> Inl ProgrammingError
      | Some t \<Rightarrow>
          if set_col \<notin> set (map sa_name (tcolumns t))
             \<or> where_col \<notin> set (map sa_name (tcolumns t)) then Inl ProgrammingError
          else Inr (db(table_name \<mapsto>
                 t\<lparr>trows := map (\<lambda>r. if attr r where_col = where_val
                                     then r(set_col \<mapsto> set_val) else r) (trows t)\<rparr>)))"

text \<open>
  \<open>op.alter_column(table_name, column_name, nullable=...)\<close>: the column must exist, and
  it can be made non-nullable only when no row holds \<open>NULL\<close> in it.
\<close>

definition alter_column :: "string \<Rightarrow> string \<Rightarrow> bool \<Rightarrow> database \<Rightarrow> error + database" where
  "alter_column table_name column_name is_nullable db =
     (case db table_name of
        None \<Rightarrow> Inl ProgrammingError
      | Some t \<Rightarrow>
          if column_name \<notin> set (map sa_name (tcolumns t)) then Inl ProgrammingError
          else if \<not> is_nullable \<and> list_ex (\<lambda>r. attr r column_name = VNone) (trows t)
               then Inl IntegrityError
          else Inr (db(table_name \<mapsto>
                 t\<lparr>tcolumns := map (\<lambda>c. if sa_name c = column_name
                                        then c\<lparr>nullable := is_nullable\<rparr> else c)
                                  (tcolumns t)\<rparr>)))"

text \<open>\<open>op.drop_column(table_name, column_name)\<close>: the column must exist.\<close>

definition drop_column :: "string \<Rightarrow> string \<Rightarrow> database \<Rightarrow> error + database" where
  "drop_column table_name column_name db =
     (case db table_name of
        None \<Rightarrow> Inl ProgrammingError
      | Some t \<Rightarrow>
          if column_name \<notin> set (map sa_name (tcolumns t)) then Inl ProgrammingError
          else Inr (db(table_name \<mapsto>
                 t\<lparr>tcolumns := filter (\<lambda>c. sa_name c \<noteq> column_name) (tcolumns t),
                   trows := map (\<lambda>r. r(column_name := None)) (trows t)\<rparr>)))"

text \<open>The commands of a migration run one after the other; the first error ends the run.\<close>

fun run :: "(database \<Rightarrow> error + database) list \<Rightarrow> database \<Rightarrow> error + database" where
  "run [] db = Inr db"
| "run (command # commands) db =
     (case command db of Inl e \<Rightarrow> Inl e | Inr db' \<Rightarrow> run commands db')"

definition upgrade :: "database \<Rightarrow> error + database" where
  "upgrade =
     run [add_column ''faraday_role''
            \<lparr>sa_name = ''weight'', sa_type = Integer, nullable = True\<rparr>,
          execute_update ''faraday_role'' ''weight'' (VInt 40) ''name'' (VStr ''admin''),
          execute_update ''faraday_role'' ''weight'' (VInt 30) ''name'' (VStr ''asset_owner''),
          execute_update ''faraday_role'' ''weight'' (VInt 20) ''name'' (VStr ''pentester''),
          execute_update ''faraday_role'' ''weight'' (VInt 10) ''name'' (VStr ''client''),
          alter_column ''faraday_role'' ''weight'' False]"

definition downgrade :: "database \<Rightarrow> error + database" where
  "downgrade = run [drop_column ''faraday_role'' ''weight'']"

text \<open>The weight the migration gives a role, by its name; none for any other name.\<close>

definition role_weight :: "val \<Rightarrow> val" where
  "role_weight name =
     (if name = VStr ''admin'' then VInt 40
      else if name = VStr ''asset_owner'' then VInt 30
      else if name = VStr ''pentester'' then VInt 20
      else if name = VStr ''client'' then VInt 10
      else VNone)"

section \<open>The session helpers of faraday/server/utils/database.py\<close>

text \<open>
  What the helpers read of the ORM session, which is external. \<open>stored\<close> gives the
  records \<open>session.query(model)\<close> ranges over, by the model's name and in the order the
  database returns them (\<open>first()\<close> takes the head of those that pass the filter);
  \<open>added\<close> collects what \<open>session.add\<close> was given; \<open>reflected\<close> is what
  \<open>Inspector.get_unique_constraints(table_name)\<close> answers, each constraint by its
  \<open>column_names\<close>; \<open>table_columns\<close> gives \<open>klass.__table__.columns\<close> by the model's name,
  a column by its key with the \<open>arg\<close> of its default, when it has one.
\<close>

record session =
  stored :: "string \<Rightarrow> row list"
  added :: "(string \<times> row) list"
  reflected :: "string \<Rightarrow> string list list"
  table_columns :: "string \<Rightarrow> (string \<rightharpoonup> val option)"

definition session_add :: "session \<Rightarrow> string \<Rightarrow> row \<Rightarrow> session" where
  "session_add s model instance = s\<lparr>added := added s @ [(model, instance)]\<rparr>"

subsection \<open>get_or_create\<close>

text \<open>
  A keyword argument of \<open>get_or_create\<close>: a plain value, or a \<open>ClauseElement\<close>, an SQL
  expression, which the database evaluates on each record.
\<close>

datatype kwarg = Plain val | Clause "row \<Rightarrow> val"

text \<open>
  \<open>filter_by(**kwargs)\<close>: every keyword names an attribute that must equal the value.
  Against the plain value \<open>None\<close> the ORM tests \<open>IS NULL\<close>; an expression that evaluates to
  \<open>NULL\<close> equals nothing.
\<close>

fun matches_kwarg :: "row \<Rightarrow> string \<times> kwarg \<Rightarrow> bool" where
  "matches_kwarg r (k, Plain v) = (attr r k = v)"
| "matches_kwarg r (k, Clause e) = (e r \<noteq> VNone \<and> attr r k = e r)"

definition filter_by :: "(string \<times> kwarg) list \<Rightarrow> row \<Rightarrow> bool" where
  "filter_by kwargs r = list_all (matches_kwarg r) kwargs"

text \<open>\<open>{k: v for k, v in kwargs.items() if not isinstance(v, ClauseElement)}\<close>\<close>

fun plain_items :: "(string \<times> kwarg) list \<Rightarrow> (string \<times> val) list" where
  "plain_items [] = []"
| "plain_items ((k, Plain v) # kwargs) = (k, v) # plain_items kwargs"
| "plain_items ((k, Clause e) # kwargs) = plain_items kwargs"

text \<open>
  \<open>model(**params)\<close> sets the attributes the keywords name, so the new instance is the
  mapping \<open>params\<close> itself; \<open>params.update(defaults or {})\<close> lets the defaults win. The
  result is the returned pair and the session after the call.
\<close>

definition get_or_create ::
  "session \<Rightarrow> string \<Rightarrow> (string \<times> val) list option \<Rightarrow> (string \<times> kwarg) list
     \<Rightarrow> (row \<times> bool) \<times> session" where
  "get_or_create session model defaults kwargs =
     (case find (filter_by kwargs) (stored session model) of
        Some instance \<Rightarrow> ((instance, False), session)
      | None \<Rightarrow>
          (let params = map_of (plain_items kwargs)
                          ++ map_of (case defaults of None \<Rightarrow> [] | Some d \<Rightarrow> d);
               instance = params
           in ((instance, True), session_add session model instance)))"

subsection \<open>get_object_type_for and get_unique_fields\<close>




subsection \<open>get_conflict_object\<close>














subsection \<open>Example data\<close>

abbreviation (input) cn :: column where
  "cn \<equiv> \<lparr>col_name = ''name'', col_type = OtherType\<rparr>"

abbreviation (input) cb :: column where
  "cb \<equiv> \<lparr>col_name = ''confirmed'', col_type = Boolean\<rparr>"

abbreviation (input) q0 :: query where
  "q0 \<equiv> \<lparr>criteria = [], ordering = [], limit_rows = None, offset_rows = None\<rparr>"

abbreviation (input) roles_db :: database where
  "roles_db \<equiv> [''faraday_role'' \<mapsto>
     \<lparr>tcolumns = [\<lparr>sa_name = ''id'', sa_type = Integer, nullable = False\<rparr>,
                  \<lparr>sa_name = ''name'', sa_type = String, nullable = True\<rparr>],
      trows = [[''id'' \<mapsto> VInt 1, ''name'' \<mapsto> VStr ''admin''],
               [''id'' \<mapsto> VInt 2, ''name'' \<mapsto> VStr ''client'']]\<rparr>]"

abbreviation (input) s0 :: session where
  "s0 \<equiv> \<lparr>stored = (\<lambda>m. if m = ''Tag'' then [[''id'' \<mapsto> VInt 1, ''name'' \<mapsto> VStr ''web''],
                                              [''id'' \<mapsto> VInt 2, ''name'' \<mapsto> VStr ''db'']] else []),
         added = [], reflected = (\<lambda>t. []), table_columns = (\<lambda>m. Map.empty)\<rparr>"







section \<open>Properties\<close>

subsection \<open>concat_search_terms\<close>

text \<open>
  C9. \<open>None\<close> is the identity of \<open>concat_search_terms\<close> under every operator: a filter
  combined with \<open>None\<close> on either side is returned as it is, and \<open>None\<close> with \<open>None\<close> is
  \<open>None\<close>. Two filters that are both present give their conjunction under \<open>'and'\<close>, their
  disjunction under \<open>'or'\<close>, and \<open>None\<close> under any other operator string.
\<close>

theorem concat_search_terms_None_identity:
  "concat_search_terms f None operator = f
   \<and> concat_search_terms None f operator = f
   \<and> concat_search_terms None None operator = None
   \<and> concat_search_terms (Some l) (Some r) ''and'' = Some (And l r)
   \<and> concat_search_terms (Some l) (Some r) ''or'' = Some (Or l r)
   \<and> (operator \<noteq> ''and'' \<and> operator \<noteq> ''or''
        \<longrightarrow> concat_search_terms (Some l) (Some r) operator = None)"
  by (cases f) (simp_all add: concat_search_terms_def)

theorem concat_search_terms_None_identity_witness:
  "concat_search_terms (Some (Like \<lparr>col_name = ''name'', col_type = OtherType\<rparr> ''%a%'')) None ''xor''
     = Some (Like \<lparr>col_name = ''name'', col_type = OtherType\<rparr> ''%a%'')
   \<and> ''xor'' \<noteq> ''and'' \<and> ''xor'' \<noteq> ''or''
   \<and> concat_search_terms
        (Some (Like \<lparr>col_name = ''name'', col_type = OtherType\<rparr> ''%a%''))
        (Some (Is \<lparr>col_name = ''done'', col_type = Boolean\<rparr> (Some True))) ''xor'' = None"
  using concat_search_terms_None_identity
    [of "Some (Like \<lparr>col_name = ''name'', col_type = OtherType\<rparr> ''%a%'')" "''xor''"
        "Like \<lparr>col_name = ''name'', col_type = OtherType\<rparr> ''%a%''"
        "Is \<lparr>col_name = ''done'', col_type = Boolean\<rparr> (Some True)"]
  by simp

subsection \<open>paginate\<close>

text \<open>
  C7. \<open>paginate\<close> raises \<open>ValueError\<close> exactly when \<open>page < 0\<close> or \<open>page_size < 0\<close>; for
  \<open>page \<ge> 0\<close> and \<open>page_size \<ge> 0\<close> it returns the query limited to \<open>page_size\<close> rows at
  an offset of \<open>page * page_size\<close> rows, its other clauses as they were.
\<close>

theorem paginate_ValueError_iff:
  "(paginate q page page_size = Inl ValueError \<longleftrightarrow> page < 0 \<or> page_size < 0)
   \<and> (page \<ge> 0 \<and> page_size \<ge> 0 \<longrightarrow>
        paginate q page page_size =
          Inr (q\<lparr>limit_rows := Some page_size, offset_rows := Some (page * page_size)\<rparr>))"
  by (auto simp: paginate_def query_limit_def query_offset_def)

theorem paginate_ValueError_iff_witness:
  "(2::int) \<ge> 0 \<and> (25::int) \<ge> 0
   \<and> paginate \<lparr>criteria = [], ordering = [], limit_rows = None, offset_rows = None\<rparr> 2 25
       = Inr \<lparr>criteria = [], ordering = [], limit_rows = Some 25, offset_rows = Some 50\<rparr>
   \<and> paginate \<lparr>criteria = [], ordering = [], limit_rows = None, offset_rows = None\<rparr> (- 1) 25
       = Inl ValueError"
  using paginate_ValueError_iff
    [of "\<lparr>criteria = [], ordering = [], limit_rows = None, offset_rows = None\<rparr>" 2 25]
    paginate_ValueError_iff
    [of "\<lparr>criteria = [], ordering = [], limit_rows = None, offset_rows = None\<rparr>" "- 1" 25]
  by simp

subsection \<open>sort_results\<close>

text \<open>
  C6. \<open>sort_results\<close> applies the requested direction to every entry mapped under
  \<open>order_field\<close>: when the mapping holds a column list that is not empty for \<open>order_field\<close>
  and \<open>order_dir\<close> is \<open>'asc'\<close> or \<open>'desc'\<close>, the query is ordered by all of them in that
  direction. For any other combination (a field that is not mapped, an empty column list,
  another direction) the default ordering is used when there is one, and the query is
  returned as it is when there is none.
\<close>

theorem sort_results_direction:
  "(map_of m order_field = Some cols \<and> cols \<noteq> [] \<and> order_dir = ''asc''
      \<longrightarrow> sort_results q m order_field order_dir dflt = query_order_by q (map Asc cols))
   \<and> (map_of m order_field = Some cols \<and> cols \<noteq> [] \<and> order_dir = ''desc''
      \<longrightarrow> sort_results q m order_field order_dir dflt = query_order_by q (map Desc cols))
   \<and> (map_of m order_field = None \<or> map_of m order_field = Some []
        \<or> (order_dir \<noteq> ''asc'' \<and> order_dir \<noteq> ''desc'')
      \<longrightarrow> sort_results q m order_field order_dir dflt
            = (case dflt of Some d \<Rightarrow> query_order_by q [d] | None \<Rightarrow> q))"
  by (auto simp: sort_results_def ASCENDING_def DESCENDING_def split: option.splits)

theorem sort_results_direction_witness:
  "sort_results q0 [(''name'', [Col cn, Label ''n''])] ''name'' ''desc'' None
     = q0\<lparr>ordering := [Desc (Col cn), Desc (Label ''n'')]\<rparr>
   \<and> sort_results q0 [(''name'', [Col cn, Label ''n''])] ''name'' ''asc'' None
     = q0\<lparr>ordering := [Asc (Col cn), Asc (Label ''n'')]\<rparr>
   \<and> sort_results q0 [(''name'', [Col cn, Label ''n''])] ''name'' ''up'' (Some (Bare (Col cb)))
     = q0\<lparr>ordering := [Bare (Col cb)]\<rparr>
   \<and> sort_results q0 [(''name'', [Col cn, Label ''n''])] ''owner'' ''asc'' None = q0"
  using sort_results_direction [of "[(''name'', [Col cn, Label ''n''])]" "''name''" "[Col cn, Label ''n'']" "''desc''" q0 None]
    sort_results_direction [of "[(''name'', [Col cn, Label ''n''])]" "''name''" "[Col cn, Label ''n'']" "''asc''" q0 None]
    sort_results_direction [of "[(''name'', [Col cn, Label ''n''])]" "''name''" "[Col cn, Label ''n'']" "''up''" q0 "Some (Bare (Col cb))"]
    sort_results_direction [of "[(''name'', [Col cn, Label ''n''])]" "''owner''" "[]" "''asc''" q0 None]
  by (simp add: query_order_by_def)

subsection \<open>apply_search_filter: the two loops\<close>

lemma concat_or_None_right: "concat_or_search_term a None = a"
  by (cases a) (simp_all add: concat_or_search_term_def concat_search_terms_def)

lemma concat_or_None_left: "concat_or_search_term None a = a"
  by (cases a) (simp_all add: concat_or_search_term_def concat_search_terms_def)

lemma concat_and_None_right: "concat_and_search_term a None = a"
  by (cases a) (simp_all add: concat_and_search_term_def concat_search_terms_def)

lemma concat_and_None_left: "concat_and_search_term None a = a"
  by (cases a) (simp_all add: concat_and_search_term_def concat_search_terms_def)

lemma opt_disjuncts_concat_or:
  "opt_disjuncts (concat_or_search_term a b) = opt_disjuncts a @ opt_disjuncts b"
  by (cases a; cases b) (simp_all add: concat_or_search_term_def concat_search_terms_def)


lemma search_columns_direct:
  "like_str = ''%'' @ v @ ''%'' \<Longrightarrow>
   search_columns (Some v) strict attribute like_str columns acc
     = foldl concat_or_search_term acc
         (map (field_filter_term (attribute \<in> set strict) v) (columns_of columns))"
  by (induction columns arbitrary: acc rule: columns_of.induct)
     (simp_all add: field_filter_term_def concat_or_None_right split: option.splits)

lemma opt_disjuncts_free_text:
  "opt_disjuncts (search_columns None strict attribute like_str columns acc)
     = opt_disjuncts acc @ map (\<lambda>c. Like c like_str) (columns_of columns)"
  by (induction columns arbitrary: acc rule: columns_of.induct)
     (simp_all add: opt_disjuncts_concat_or)

lemma search_attributes_dfs:
  "snd (search_attributes fts ff strict m (f, d))
     = foldl concat_and_search_term d (field_filter_terms ff strict m)"
  by (induction m arbitrary: f d)
     (auto simp: search_columns_direct attribute_field_filter_def split: option.splits)


lemma search_attributes_fts_disjuncts:
  "term \<noteq> [] \<Longrightarrow>
   opt_disjuncts (fst (search_attributes (Some term) ff strict m (f, d)))
     = opt_disjuncts f @ map (\<lambda>c. Like c (''%'' @ term @ ''%'')) (free_text_columns ff m)"
  by (induction m arbitrary: f d)
     (auto simp: opt_disjuncts_free_text opt_disjuncts_concat_or split: option.splits)

lemma search_attributes_no_fts:
  "fts = None \<or> fts = Some [] \<Longrightarrow>
   fst (search_attributes fts ff strict m (f, d)) = f"
  by (induction m arbitrary: f d)
     (auto split: option.splits)

text \<open>Evaluations of \<open>lower\<close> the examples below use.\<close>

lemma lower_TRUE: "lower ''TRUE'' = ''true''"
  by code_simp
lemma lower_False: "lower ''False'' = ''false''"
  by code_simp
lemma lower_yes: "lower ''yes'' = ''yes''"
  by code_simp



text \<open>
  C2, as the code has it. When \<open>free_text_search\<close> is a term that is not empty, the
  free-text filter joins with \<open>|\<close> one \<open>LIKE\<close> condition per column, the term wrapped in
  \<open>%\<close> on both ends, over the columns (the entries that are not labels) of the attributes
  that are not keys of \<open>field_filter\<close>, in the mapping's order; \<open>apply_search_filter\<close>
  then filters the query by this filter joined by \<open>&\<close> with the field filters.
\<close>

theorem free_text_filter_columns:
  "term \<noteq> [] \<longrightarrow>
     opt_disjuncts (fst (search_attributes (Some term) ff strict m (None, None)))
       = map (\<lambda>c. Like c (''%'' @ term @ ''%'')) (free_text_columns ff m)
     \<and> (\<not> list_ex (\<lambda>attr. attr \<notin> set (map fst m)) (map fst ff) \<longrightarrow>
          apply_search_filter q m (Some term) ff strict
            = Inr (case concat_and_search_term
                          (fst (search_attributes (Some term) ff strict m (None, None)))
                          (foldl concat_and_search_term None (field_filter_terms ff strict m)) of
                     Some sql_filter \<Rightarrow> query_filter q sql_filter
                   | None \<Rightarrow> q))"
proof (intro impI conjI)
  assume t: "term \<noteq> []"
  show "opt_disjuncts (fst (search_attributes (Some term) ff strict m (None, None)))
       = map (\<lambda>c. Like c (''%'' @ term @ ''%'')) (free_text_columns ff m)"
    using search_attributes_fts_disjuncts [OF t, of ff strict m None None] by simp
next
  assume k: "\<not> list_ex (\<lambda>attr. attr \<notin> set (map fst m)) (map fst ff)"
  obtain f d where fd: "search_attributes (Some term) ff strict m (None, None) = (f, d)"
    by (cases "search_attributes (Some term) ff strict m (None, None)")
  have d: "d = foldl concat_and_search_term None (field_filter_terms ff strict m)"
    using search_attributes_dfs [of "Some term" ff strict m None None] fd by simp
  show "apply_search_filter q m (Some term) ff strict
            = Inr (case concat_and_search_term
                          (fst (search_attributes (Some term) ff strict m (None, None)))
                          (foldl concat_and_search_term None (field_filter_terms ff strict m)) of
                     Some sql_filter \<Rightarrow> query_filter q sql_filter
                   | None \<Rightarrow> q)"
    using k fd d by (simp add: apply_search_filter_def split: option.splits)
qed

theorem free_text_filter_columns_witness:
  "''x'' \<noteq> []
   \<and> opt_disjuncts (fst (search_attributes (Some ''x'') [(''confirmed'', ''TRUE'')] []
        [(''name'', [Col cn, Label ''n'']), (''confirmed'', [Col cb]), (''id'', [Col cn])]
        (None, None)))
       = [Like cn ''%x%'', Like cn ''%x%'']
   \<and> apply_search_filter q0
        [(''name'', [Col cn, Label ''n'']), (''confirmed'', [Col cb]), (''id'', [Col cn])]
        (Some ''x'') [(''confirmed'', ''TRUE'')] []
       = Inr (q0\<lparr>criteria := [And (Or (Like cn ''%x%'') (Like cn ''%x%'')) (Is cb (Some True))]\<rparr>)"
  using free_text_filter_columns [of "''x''" "[(''confirmed'', ''TRUE'')]" "[]"
      "[(''name'', [Col cn, Label ''n'']), (''confirmed'', [Col cb]), (''id'', [Col cn])]" q0]
  by (simp add: attribute_field_filter_def field_filter_term_def prepare_boolean_filter_def
      lower_TRUE concat_or_None_left concat_and_None_left query_filter_def
      concat_and_search_term_def concat_or_search_term_def concat_search_terms_def)

text \<open>
  The free-text term is not matched against all the columns of the mapping: the
  column of an attribute that is a key of \<open>field_filter\<close> gets the pattern of its field
  filter only.
\<close>

theorem free_text_all_columns_counterexample:
  "opt_disjuncts (fst (search_attributes (Some ''x'') [(''name'', ''y'')] []
      [(''name'', [Col cn])] (None, None)))
     \<noteq> map (\<lambda>c. Like c ''%x%'') (columns_of [Col cn])
   \<and> apply_search_filter q0 [(''name'', [Col cn])] (Some ''x'') [(''name'', ''y'')] []
       = Inr (q0\<lparr>criteria := [Like cn ''%y%'']\<rparr>)"
  by (simp add: apply_search_filter_def query_filter_def
      concat_and_search_term_def concat_or_search_term_def concat_search_terms_def)

text \<open>
  C3. A direct field filter on a Boolean column normalises its value without regard to
  case: \<open>'true'\<close> or \<open>'1'\<close> gives \<open>column IS TRUE\<close>, \<open>'false'\<close> or \<open>'0'\<close> gives
  \<open>(column IS FALSE) OR (column IS NULL)\<close>, and any other value leaves the column out of
  the filter, with no error. The first equation is the step of the column loop, the second the
  whole function on a mapping of one Boolean column.
\<close>

theorem boolean_field_filter_normalized:
  "col_type c = Boolean \<longrightarrow>
     search_columns (Some v) strict attribute like_str (Col c # columns) acc
       = search_columns (Some v) strict attribute like_str columns
           (concat_or_search_term acc
              (if lower v \<in> {''true'', ''1''} then Some (Is c (Some True))
               else if lower v \<in> {''false'', ''0''}
                    then Some (Or (Is c (Some False)) (Is c None))
               else None))
     \<and> apply_search_filter q [(attribute, [Col c])] fts [(attribute, v)] strict
       = Inr (if lower v \<in> {''true'', ''1''} then query_filter q (Is c (Some True))
              else if lower v \<in> {''false'', ''0''}
                   then query_filter q (Or (Is c (Some False)) (Is c None))
              else q)"
  by (simp add: apply_search_filter_def prepare_boolean_filter_def concat_or_None_right
      concat_or_None_left concat_and_None_left)

theorem boolean_field_filter_normalized_witness:
  "col_type cb = Boolean
   \<and> apply_search_filter q0 [(''confirmed'', [Col cb])] None [(''confirmed'', ''TRUE'')] []
       = Inr (q0\<lparr>criteria := [Is cb (Some True)]\<rparr>)
   \<and> apply_search_filter q0 [(''confirmed'', [Col cb])] None [(''confirmed'', ''False'')] []
       = Inr (q0\<lparr>criteria := [Or (Is cb (Some False)) (Is cb None)]\<rparr>)
   \<and> apply_search_filter q0 [(''confirmed'', [Col cb])] None [(''confirmed'', ''yes'')] []
       = Inr q0"
  using boolean_field_filter_normalized [of cb "''TRUE''" "[]" "''confirmed''" "[]" "[]" None q0 None]
    boolean_field_filter_normalized [of cb "''False''" "[]" "''confirmed''" "[]" "[]" None q0 None]
    boolean_field_filter_normalized [of cb "''yes''" "[]" "''confirmed''" "[]" "[]" None q0 None]
  by (simp add: lower_TRUE lower_False lower_yes query_filter_def)

text \<open>
  C10. \<open>apply_search_filter\<close> raises \<open>ValueError\<close> exactly when some key of
  \<open>field_filter\<close> is not a key of the mapping; the check comes first, so no filter is built
  and no query is returned then. When every key is mapped it returns a query.
\<close>

theorem apply_search_filter_unmapped_key:
  "(apply_search_filter q m fts ff strict = Inl ValueError
      \<longleftrightarrow> (\<exists>k \<in> set (map fst ff). k \<notin> set (map fst m)))
   \<and> ((\<forall>k \<in> set (map fst ff). k \<in> set (map fst m))
      \<longrightarrow> (\<exists>q'. apply_search_filter q m fts ff strict = Inr q'))"
  by (auto simp: apply_search_filter_def list_ex_iff split: prod.splits option.splits)

theorem apply_search_filter_unmapped_key_witness:
  "apply_search_filter q0 [(''name'', [Col cn])] (Some ''x'') [(''owner'', ''y'')] [] = Inl ValueError
   \<and> (\<exists>q'. apply_search_filter q0 [(''name'', [Col cn])] (Some ''x'') [(''name'', ''y'')] [] = Inr q')"
  using apply_search_filter_unmapped_key [of q0 "[(''name'', [Col cn])]" "Some ''x''" "[(''owner'', ''y'')]" "[]"]
    apply_search_filter_unmapped_key [of q0 "[(''name'', [Col cn])]" "Some ''x''" "[(''name'', ''y'')]" "[]"]
  by simp

subsection \<open>The migration\<close>

lemma attr_upd: "attr (r(c \<mapsto> v)) c' = (if c' = c then v else attr r c')"
  by (simp add: attr_def)

lemma alter_other_columns:
  "column_name \<notin> set (map sa_name cs) \<Longrightarrow>
   map (\<lambda>c. if sa_name c = column_name then c\<lparr>nullable := b\<rparr> else c) cs = cs"
  by (induction cs) auto

lemma add_weight_column:
  assumes "db n = Some t" and "sa_name c \<notin> set (map sa_name (tcolumns t))" and "nullable c"
  shows "add_column n c db =
     Inr (db(n \<mapsto> \<lparr>tcolumns = tcolumns t @ [c],
                     trows = map (\<lambda>r. r(sa_name c \<mapsto> VNone)) (trows t)\<rparr>))"
  using assms by (cases t) (simp add: add_column_def)

lemma execute_update_mapped:
  assumes "db n = Some \<lparr>tcolumns = cs, trows = map (\<lambda>r. r(sc \<mapsto> f r)) rows\<rparr>"
    and "sc \<in> set (map sa_name cs)" and "wc \<in> set (map sa_name cs)" and "wc \<noteq> sc"
  shows "execute_update n sc v wc w db =
     Inr (db(n \<mapsto> \<lparr>tcolumns = cs,
                     trows = map (\<lambda>r. r(sc \<mapsto> (if attr r wc = w then v else f r))) rows\<rparr>))"
  using assms by (auto simp: execute_update_def attr_upd o_def)

lemma alter_column_mapped:
  assumes "db n = Some \<lparr>tcolumns = cs @ [c], trows = map (\<lambda>r. r(sa_name c \<mapsto> f r)) rows\<rparr>"
    and "sa_name c \<notin> set (map sa_name cs)"
  shows "alter_column n (sa_name c) False db =
     (if list_ex (\<lambda>r. f r = VNone) rows then Inl IntegrityError
      else Inr (db(n \<mapsto> \<lparr>tcolumns = cs @ [c\<lparr>nullable := False\<rparr>],
                     trows = map (\<lambda>r. r(sa_name c \<mapsto> f r)) rows\<rparr>)))"
  using assms by (auto simp: alter_column_def attr_upd o_def alter_other_columns list_ex_iff)


lemma role_weight_cases:
  "(if n = VStr ''client'' then VInt 10
    else if n = VStr ''pentester'' then VInt 20
    else if n = VStr ''asset_owner'' then VInt 30
    else if n = VStr ''admin'' then VInt 40 else VNone) = role_weight n"
  by (simp add: role_weight_def)

lemma upgrade_steps:
  assumes t: "db ''faraday_role'' = Some t"
    and w: "''weight'' \<notin> set (map sa_name (tcolumns t))"
    and n: "''name'' \<in> set (map sa_name (tcolumns t))"
  shows "upgrade db =
     (if list_ex (\<lambda>r. role_weight (attr r ''name'') = VNone) (trows t) then Inl IntegrityError
      else Inr (db(''faraday_role'' \<mapsto>
             \<lparr>tcolumns = tcolumns t @ [\<lparr>sa_name = ''weight'', sa_type = Integer, nullable = False\<rparr>],
              trows = map (\<lambda>r. r(''weight'' \<mapsto> role_weight (attr r ''name''))) (trows t)\<rparr>)))"
proof -
  let ?c = "\<lparr>sa_name = ''weight'', sa_type = Integer, nullable = True\<rparr>"
  let ?cs = "tcolumns t @ [?c]"
  let ?T = "\<lambda>f. \<lparr>tcolumns = ?cs, trows = map (\<lambda>r. r(''weight'' \<mapsto> f r)) (trows t)\<rparr>"
  let ?D = "\<lambda>f. db(''faraday_role'' \<mapsto> ?T f)"
  have in_cs: "''weight'' \<in> set (map sa_name ?cs)" "''name'' \<in> set (map sa_name ?cs)"
    using n by simp_all
  have s0: "add_column ''faraday_role'' ?c db = Inr (?D (\<lambda>r. VNone))"
    using add_weight_column [of db "''faraday_role''" t ?c] t w by simp
  have upd: "execute_update ''faraday_role'' ''weight'' v ''name'' x (?D f)
      = Inr (?D (\<lambda>r. if attr r ''name'' = x then v else f r))" for v x f
    using execute_update_mapped [of "?D f" "''faraday_role''" ?cs "''weight''" f "trows t" "''name''" v x]
      in_cs by simp
  have alt: "alter_column ''faraday_role'' ''weight'' False (?D f)
      = (if list_ex (\<lambda>r. f r = VNone) (trows t) then Inl IntegrityError
         else Inr (db(''faraday_role'' \<mapsto>
           \<lparr>tcolumns = tcolumns t @ [\<lparr>sa_name = ''weight'', sa_type = Integer, nullable = False\<rparr>],
            trows = map (\<lambda>r. r(''weight'' \<mapsto> f r)) (trows t)\<rparr>)))" for f
    using alter_column_mapped [of "?D f" "''faraday_role''" "tcolumns t" ?c f "trows t"] w
    by simp
  show ?thesis
    unfolding upgrade_def
    by (simp only: run.simps s0 upd alt sum.case role_weight_cases) simp
qed

lemma downgrade_steps:
  assumes "db ''faraday_role'' = Some \<lparr>tcolumns = cs @ [c], trows = rows\<rparr>"
    and "sa_name c = ''weight''" and "''weight'' \<notin> set (map sa_name cs)"
  shows "downgrade db =
     Inr (db(''faraday_role'' \<mapsto>
            \<lparr>tcolumns = cs, trows = map (\<lambda>r. r(''weight'' := None)) rows\<rparr>))"
proof -
  have "filter (\<lambda>c. sa_name c \<noteq> ''weight'') cs = cs"
    using assms(3) by (induction cs) auto
  then show ?thesis
    using assms by (simp add: downgrade_def drop_column_def)
qed


text \<open>
  C8, as the code has it. On a database whose \<open>faraday_role\<close> table has a \<open>name\<close>
  column, no \<open>weight\<close> column and only roles named \<open>admin\<close>, \<open>asset_owner\<close>,
  \<open>pentester\<close> or \<open>client\<close>, \<open>upgrade\<close> succeeds: it adds an integer column
  \<open>weight\<close>, gives the role named \<open>admin\<close> the weight 40,
  \<open>asset_owner\<close> 30, \<open>pentester\<close> 20 and \<open>client\<close> 10, and leaves the column non-nullable.
  \<open>downgrade\<close> then drops the column: the table has the columns it had before the
  upgrade.
\<close>

theorem upgrade_adds_weight_downgrade_drops:
  assumes "db ''faraday_role'' = Some t"
    and "''weight'' \<notin> set (map sa_name (tcolumns t))"
    and "''name'' \<in> set (map sa_name (tcolumns t))"
    and "\<forall>r \<in> set (trows t). attr r ''name'' \<in>
           {VStr ''admin'', VStr ''asset_owner'', VStr ''pentester'', VStr ''client''}"
  shows "upgrade db = Inr (db(''faraday_role'' \<mapsto>
            \<lparr>tcolumns = tcolumns t
               @ [\<lparr>sa_name = ''weight'', sa_type = Integer, nullable = False\<rparr>],
             trows = map (\<lambda>r. r(''weight'' \<mapsto> role_weight (attr r ''name''))) (trows t)\<rparr>))
      \<and> (\<forall>r \<in> set (map (\<lambda>r. r(''weight'' \<mapsto> role_weight (attr r ''name''))) (trows t)).
            (attr r ''name'' = VStr ''admin'' \<longrightarrow> attr r ''weight'' = VInt 40)
          \<and> (attr r ''name'' = VStr ''asset_owner'' \<longrightarrow> attr r ''weight'' = VInt 30)
          \<and> (attr r ''name'' = VStr ''pentester'' \<longrightarrow> attr r ''weight'' = VInt 20)
          \<and> (attr r ''name'' = VStr ''client'' \<longrightarrow> attr r ''weight'' = VInt 10))
      \<and> downgrade (db(''faraday_role'' \<mapsto>
            \<lparr>tcolumns = tcolumns t
               @ [\<lparr>sa_name = ''weight'', sa_type = Integer, nullable = False\<rparr>],
             trows = map (\<lambda>r. r(''weight'' \<mapsto> role_weight (attr r ''name''))) (trows t)\<rparr>))
          = Inr (db(''faraday_role'' \<mapsto>
              \<lparr>tcolumns = tcolumns t, trows = map (\<lambda>r. r(''weight'' := None)) (trows t)\<rparr>))"
proof -
  let ?w = "\<lparr>sa_name = ''weight'', sa_type = Integer, nullable = False\<rparr>"
  let ?rows = "map (\<lambda>r. r(''weight'' \<mapsto> role_weight (attr r ''name''))) (trows t)"
  let ?t' = "\<lparr>tcolumns = tcolumns t @ [?w], trows = ?rows\<rparr>"
  let ?db' = "db(''faraday_role'' \<mapsto> ?t')"
  have "\<not> list_ex (\<lambda>r. role_weight (attr r ''name'') = VNone) (trows t)"
    using assms(4) by (auto simp: list_ex_iff role_weight_def)
  then have up: "upgrade db = Inr ?db'"
    using upgrade_steps [of db t] assms(1-3) by simp
  have weights: "\<forall>r \<in> set ?rows.
            (attr r ''name'' = VStr ''admin'' \<longrightarrow> attr r ''weight'' = VInt 40)
          \<and> (attr r ''name'' = VStr ''asset_owner'' \<longrightarrow> attr r ''weight'' = VInt 30)
          \<and> (attr r ''name'' = VStr ''pentester'' \<longrightarrow> attr r ''weight'' = VInt 20)
          \<and> (attr r ''name'' = VStr ''client'' \<longrightarrow> attr r ''weight'' = VInt 10)"
    by (auto simp: attr_upd role_weight_def)
  have down: "downgrade ?db' = Inr (?db'(''faraday_role'' \<mapsto>
            \<lparr>tcolumns = tcolumns t, trows = map (\<lambda>r. r(''weight'' := None)) ?rows\<rparr>))"
    using downgrade_steps [of ?db' "tcolumns t" ?w ?rows] assms(2) by simp
  have "map (\<lambda>r. r(''weight'' := None)) ?rows = map (\<lambda>r. r(''weight'' := None)) (trows t)"
    by (simp add: o_def)
  with down have down': "downgrade ?db' = Inr (db(''faraday_role'' \<mapsto>
            \<lparr>tcolumns = tcolumns t, trows = map (\<lambda>r. r(''weight'' := None)) (trows t)\<rparr>))"
    by (simp add: o_def)
  show ?thesis
    using up weights down' by simp
qed

lemma roles_rows_without_weight:
  "[''id'' \<mapsto> VInt i, ''name'' \<mapsto> VStr n](''weight'' := None) = [''id'' \<mapsto> VInt i, ''name'' \<mapsto> VStr n]"
  by (rule ext) simp

theorem upgrade_adds_weight_downgrade_drops_witness:
  "upgrade roles_db = Inr [''faraday_role'' \<mapsto>
         \<lparr>tcolumns = [\<lparr>sa_name = ''id'', sa_type = Integer, nullable = False\<rparr>,
                      \<lparr>sa_name = ''name'', sa_type = String, nullable = True\<rparr>,
                      \<lparr>sa_name = ''weight'', sa_type = Integer, nullable = False\<rparr>],
          trows = [[''id'' \<mapsto> VInt 1, ''name'' \<mapsto> VStr ''admin'', ''weight'' \<mapsto> VInt 40],
                   [''id'' \<mapsto> VInt 2, ''name'' \<mapsto> VStr ''client'', ''weight'' \<mapsto> VInt 10]]\<rparr>]
     \<and> downgrade [''faraday_role'' \<mapsto>
         \<lparr>tcolumns = [\<lparr>sa_name = ''id'', sa_type = Integer, nullable = False\<rparr>,
                      \<lparr>sa_name = ''name'', sa_type = String, nullable = True\<rparr>,
                      \<lparr>sa_name = ''weight'', sa_type = Integer, nullable = False\<rparr>],
          trows = [[''id'' \<mapsto> VInt 1, ''name'' \<mapsto> VStr ''admin'', ''weight'' \<mapsto> VInt 40],
                   [''id'' \<mapsto> VInt 2, ''name'' \<mapsto> VStr ''client'', ''weight'' \<mapsto> VInt 10]]\<rparr>]
        = Inr roles_db"
  using upgrade_adds_weight_downgrade_drops [of roles_db
      "\<lparr>tcolumns = [\<lparr>sa_name = ''id'', sa_type = Integer, nullable = False\<rparr>,
                  \<lparr>sa_name = ''name'', sa_type = String, nullable = True\<rparr>],
      trows = [[''id'' \<mapsto> VInt 1, ''name'' \<mapsto> VStr ''admin''],
               [''id'' \<mapsto> VInt 2, ''name'' \<mapsto> VStr ''client'']]\<rparr>"]
  by (simp add: attr_def role_weight_def roles_rows_without_weight)

text \<open>
  The upgrade does not succeed on every table of roles: a role of any other name is
  given no weight, its \<open>weight\<close> stays \<open>NULL\<close>, and the database refuses to make the column
  non-nullable. Here the table holds a role named \<open>guest\<close>.
\<close>

theorem upgrade_other_role_counterexample:
  "upgrade [''faraday_role'' \<mapsto>
      \<lparr>tcolumns = [\<lparr>sa_name = ''id'', sa_type = Integer, nullable = False\<rparr>,
                   \<lparr>sa_name = ''name'', sa_type = String, nullable = True\<rparr>],
       trows = [[''id'' \<mapsto> VInt 1, ''name'' \<mapsto> VStr ''admin''],
                [''id'' \<mapsto> VInt 2, ''name'' \<mapsto> VStr ''guest'']]\<rparr>]
     = Inl IntegrityError"
  using upgrade_steps [of "[''faraday_role'' \<mapsto>
      \<lparr>tcolumns = [\<lparr>sa_name = ''id'', sa_type = Integer, nullable = False\<rparr>,
                   \<lparr>sa_name = ''name'', sa_type = String, nullable = True\<rparr>],
       trows = [[''id'' \<mapsto> VInt 1, ''name'' \<mapsto> VStr ''admin''],
                [''id'' \<mapsto> VInt 2, ''name'' \<mapsto> VStr ''guest'']]\<rparr>]"
      "\<lparr>tcolumns = [\<lparr>sa_name = ''id'', sa_type = Integer, nullable = False\<rparr>,
                   \<lparr>sa_name = ''name'', sa_type = String, nullable = True\<rparr>],
       trows = [[''id'' \<mapsto> VInt 1, ''name'' \<mapsto> VStr ''admin''],
                [''id'' \<mapsto> VInt 2, ''name'' \<mapsto> VStr ''guest'']]\<rparr>"]
  by (simp add: attr_def role_weight_def)

subsection \<open>get_or_create\<close>

text \<open>
  C5. \<open>get_or_create\<close> finds or creates. If a record of the model passes the keyword
  filters, the first such record is returned with \<open>False\<close> and the session is as it was:
  nothing is created. Otherwise a new instance is built from the keyword values that are
  not clauses, updated with the defaults, added to the session, and returned with
  \<open>True\<close>.
\<close>

theorem get_or_create_find_or_create:
  "((\<exists>r \<in> set (stored s model). filter_by kwargs r) \<longrightarrow>
      (\<exists>r. get_or_create s model defaults kwargs = ((r, False), s)
         \<and> find (filter_by kwargs) (stored s model) = Some r
         \<and> r \<in> set (stored s model) \<and> filter_by kwargs r))
   \<and> ((\<forall>r \<in> set (stored s model). \<not> filter_by kwargs r) \<longrightarrow>
      get_or_create s model defaults kwargs =
        ((map_of (plain_items kwargs) ++ map_of (case defaults of None \<Rightarrow> [] | Some d \<Rightarrow> d), True),
         session_add s model
           (map_of (plain_items kwargs) ++ map_of (case defaults of None \<Rightarrow> [] | Some d \<Rightarrow> d))))"
proof (intro conjI impI)
  assume "\<exists>r \<in> set (stored s model). filter_by kwargs r"
  then have "find (filter_by kwargs) (stored s model) \<noteq> None"
    by (auto simp: find_None_iff)
  then obtain r where f: "find (filter_by kwargs) (stored s model) = Some r"
    by blast
  then have "r \<in> set (stored s model)" and "filter_by kwargs r"
    by (auto simp: find_Some_iff)
  moreover from f have "get_or_create s model defaults kwargs = ((r, False), s)"
    by (simp add: get_or_create_def)
  ultimately show "\<exists>r. get_or_create s model defaults kwargs = ((r, False), s)
         \<and> find (filter_by kwargs) (stored s model) = Some r
         \<and> r \<in> set (stored s model) \<and> filter_by kwargs r"
    using f by blast
next
  assume "\<forall>r \<in> set (stored s model). \<not> filter_by kwargs r"
  then have "find (filter_by kwargs) (stored s model) = None"
    by (auto simp: find_None_iff)
  then show "get_or_create s model defaults kwargs =
        ((map_of (plain_items kwargs) ++ map_of (case defaults of None \<Rightarrow> [] | Some d \<Rightarrow> d), True),
         session_add s model
           (map_of (plain_items kwargs) ++ map_of (case defaults of None \<Rightarrow> [] | Some d \<Rightarrow> d)))"
    by (simp add: get_or_create_def Let_def)
qed

lemma s0_Tag: "stored s0 ''Tag'' = [[''id'' \<mapsto> VInt 1, ''name'' \<mapsto> VStr ''web''],
                                              [''id'' \<mapsto> VInt 2, ''name'' \<mapsto> VStr ''db'']]"
  by simp

theorem get_or_create_find_or_create_witness:
  "get_or_create s0 ''Tag'' (Some [(''color'', VStr ''red'')]) [(''name'', Plain (VStr ''db''))]
     = (([''id'' \<mapsto> VInt 2, ''name'' \<mapsto> VStr ''db''], False), s0)
   \<and> get_or_create s0 ''Tag'' (Some [(''color'', VStr ''red'')])
        [(''name'', Plain (VStr ''mail'')), (''id'', Clause (\<lambda>r. VInt 7))]
     = (([''name'' \<mapsto> VStr ''mail'', ''color'' \<mapsto> VStr ''red''], True),
        s0\<lparr>added := [(''Tag'', [''name'' \<mapsto> VStr ''mail'', ''color'' \<mapsto> VStr ''red''])]\<rparr>)"
proof -
  have a: "\<exists>r \<in> set (stored s0 ''Tag''). filter_by [(''name'', Plain (VStr ''db''))] r"
    by (simp add: filter_by_def attr_def)
  have b: "\<forall>r \<in> set (stored s0 ''Tag'').
      \<not> filter_by [(''name'', Plain (VStr ''mail'')), (''id'', Clause (\<lambda>r. VInt 7))] r"
    by (simp add: filter_by_def attr_def)
  have c: "find (filter_by [(''name'', Plain (VStr ''db''))]) (stored s0 ''Tag'')
      = Some [''id'' \<mapsto> VInt 2, ''name'' \<mapsto> VStr ''db'']"
    by (simp add: filter_by_def attr_def)
  have d: "map_of [(''name'', VStr ''mail'')] ++ map_of [(''color'', VStr ''red'')]
      = [''name'' \<mapsto> VStr ''mail'', ''color'' \<mapsto> VStr ''red'']"
    by (rule ext) (simp add: map_add_def)
  from get_or_create_find_or_create
    [of s0 "''Tag''" "[(''name'', Plain (VStr ''db''))]" "Some [(''color'', VStr ''red'')]"] a c
  have 1: "get_or_create s0 ''Tag'' (Some [(''color'', VStr ''red'')]) [(''name'', Plain (VStr ''db''))]
     = (([''id'' \<mapsto> VInt 2, ''name'' \<mapsto> VStr ''db''], False), s0)"
    by auto
  from get_or_create_find_or_create
    [of s0 "''Tag''" "[(''name'', Plain (VStr ''mail'')), (''id'', Clause (\<lambda>r. VInt 7))]"
        "Some [(''color'', VStr ''red'')]"] b d
  have 2: "get_or_create s0 ''Tag'' (Some [(''color'', VStr ''red'')])
        [(''name'', Plain (VStr ''mail'')), (''id'', Clause (\<lambda>r. VInt 7))]
     = (([''name'' \<mapsto> VStr ''mail'', ''color'' \<mapsto> VStr ''red''], True),
        s0\<lparr>added := [(''Tag'', [''name'' \<mapsto> VStr ''mail'', ''color'' \<mapsto> VStr ''red''])]\<rparr>)"
    by (simp add: session_add_def)
  from 1 2 show ?thesis by blast
qed

subsection \<open>get_unique_fields and get_conflict_object\<close>














end
